theory Spec2Isabelle
  imports Main
begin

section \<open>Layers, connections and errors\<close>

text \<open>
  The exceptions that \<^verbatim>\<open>neupy/network/constructor.py\<close> raises itself
  (\<^verbatim>\<open>NetworkConnectionError\<close>, \<^verbatim>\<open>ValueError\<close>) and the ones the Python
  runtime raises on its statements: a call with the wrong number of positional arguments
  (\<^verbatim>\<open>TypeError\<close>), a missing attribute, an index out of range.
\<close>

datatype error = NetworkConnectionError | ValueError | TypeError | AttributeError | IndexError

text \<open>
  The constructor tells layers apart with \<^verbatim>\<open>isinstance\<close> only: against
  \<^verbatim>\<open>Output\<close> and against \<^verbatim>\<open>Dropout\<close>. Every other subclass of
  \<^verbatim>\<open>BaseLayer\<close> is \<open>Plain\<close>.
\<close>

datatype layer_class = Plain | Dropout | Output

type_synonym parameter = string

text \<open>
  A layer, with the attributes the constructor reads: its class, its unit count, the rank of
  its weight (\<^verbatim>\<open>layer.weight.ndim\<close>) and its ordered \<^verbatim>\<open>parameters\<close>.
\<close>

record layer =
  layer_class :: layer_class
  layer_size :: int
  weight_ndim :: int
  parameters :: "parameter list"

text \<open>
  What the operator \<^verbatim>\<open>>\<close> and the class \<^verbatim>\<open>LayerConnection\<close> build: a bare layer, or
  a connection of a left and a right part, each a layer or a connection again.
\<close>

datatype chain = Layer layer | LayerConnection chain chain

datatype container = PyList | PyTuple

text \<open>
  The three shapes of the argument \<^verbatim>\<open>connection\<close>: a sequence of integers, a sequence
  of layer objects or connections, a single object. The empty sequence is \<open>ObjSeq k []\<close>.
\<close>

datatype connection =
    IntSeq container "int list"
  | ObjSeq container "chain list"
  | Obj chain

text \<open>
  Modelled from the spec: \<^verbatim>\<open>LayerConnection.output_layer\<close> and the iteration over a
  connection (\<^verbatim>\<open>neupy/layers/connections.py\<close> is not among the sources). The last
  element is the pipeline's terminus, and iterating yields the layers in their order.
\<close>

fun chain_output_layer :: "chain \<Rightarrow> layer" where
  "chain_output_layer (Layer l) = l"
| "chain_output_layer (LayerConnection left right) = chain_output_layer right"

fun layers_of :: "chain \<Rightarrow> layer list" where
  "layers_of (Layer l) = [l]"
| "layers_of (LayerConnection left right) = layers_of left @ layers_of right"

text \<open>
  The attribute \<^verbatim>\<open>connection.output_layer\<close>. Modelled from the spec: a layer's
  capabilities are forward, initialize, parameters and its ranks, so a bare layer has no
  such attribute and the lookup raises.
\<close>

fun getattr_output_layer :: "chain \<Rightarrow> error + layer" where
  "getattr_output_layer (Layer l) = Inl AttributeError"
| "getattr_output_layer (LayerConnection left right) = Inr (chain_output_layer right)"

text \<open>
  Modelled from the spec: \<^verbatim>\<open>generate_layers\<close> (\<^verbatim>\<open>neupy/layers/utils.py\<close> is not
  among the sources). Each integer is a layer's unit count; the layers get the default
  activation, and the final element is wrapped as the Output layer.
\<close>

definition default_layer :: "layer_class \<Rightarrow> int \<Rightarrow> layer" where
  "default_layer cls n =
     \<lparr>layer_class = cls, layer_size = n, weight_ndim = 2, parameters = []\<rparr>"

definition generate_layers :: "int list \<Rightarrow> chain list" where
  "generate_layers layers_sizes =
     (if layers_sizes = [] then []
      else map (\<lambda>n. Layer (default_layer Plain n)) (butlast layers_sizes)
           @ [Layer (default_layer Output (last layers_sizes))])"

section \<open>clean_layers\<close>

text \<open>The value of the variable \<^verbatim>\<open>connection\<close> once integers have been replaced.\<close>

datatype pyvalue = PySeq container "chain list" | PyObj chain

text \<open>
  The loop \<^verbatim>\<open>for layer in reversed(connection): chain_connection =
  LayerConnection(layer, chain_connection)\<close>, over the elements still to visit.
\<close>

fun link_layers :: "chain list \<Rightarrow> chain \<Rightarrow> chain" where
  "link_layers [] chain_connection = chain_connection"
| "link_layers (layer # rest) chain_connection =
     link_layers rest (LayerConnection layer chain_connection)"

text \<open>The final check of \<^verbatim>\<open>clean_layers\<close> (lines 54 to 58).\<close>

definition validate_output :: "chain \<Rightarrow> error + chain" where
  "validate_output connection =
     (case getattr_output_layer connection of
        Inl e \<Rightarrow> Inl e
      | Inr output_layer \<Rightarrow>
          if layer_class output_layer \<noteq> Output then Inl NetworkConnectionError
          else Inr connection)"

text \<open>
  \<^verbatim>\<open>clean_layers\<close>. A sequence of integers becomes the list of generated layers; a
  tuple becomes a list; \<^verbatim>\<open>connection[0]\<close> on an empty list raises; a list that starts
  with a layer is linked from its popped last element backwards; a list that starts with a
  connection is left as it is, and a list has no \<^verbatim>\<open>output_layer\<close>.
\<close>

definition clean_layers :: "connection \<Rightarrow> error + chain" where
  "clean_layers connection =
     (let connection1 =
            (case connection of
               IntSeq k layers_sizes \<Rightarrow> PySeq PyList (generate_layers layers_sizes)
             | ObjSeq k xs \<Rightarrow> PySeq k xs
             | Obj c \<Rightarrow> PyObj c);
          connection2 =
            (case connection1 of
               PySeq PyTuple xs \<Rightarrow> PySeq PyList xs
             | v \<Rightarrow> v)
      in case connection2 of
           PySeq k [] \<Rightarrow> Inl IndexError
         | PySeq k (Layer l # rest) \<Rightarrow>
             validate_output
               (link_layers (rev (butlast (Layer l # rest))) (last (Layer l # rest)))
         | PySeq k (LayerConnection left right # rest) \<Rightarrow> Inl AttributeError
         | PyObj c \<Rightarrow> validate_output c)"

section \<open>Symbolic variables and expressions\<close>

text \<open>
  The placeholder constructors of the tensor library that the constructor names
  (\<^verbatim>\<open>T.matrix\<close>, \<^verbatim>\<open>T.tensor3\<close>, \<^verbatim>\<open>T.tensor4\<close>), and any other constructor an error
  function may carry as its \<^verbatim>\<open>expected_dtype\<close>.
\<close>

datatype tensor_type = matrix | tensor3 | tensor4 | other_type string

datatype variable = Variable tensor_type string

text \<open>
  An error function: a callable, with the optional attribute \<^verbatim>\<open>expected_dtype\<close>.
\<close>

record error_function =
  error_name :: string
  expected_dtype :: "tensor_type option"

text \<open>
  The mutable cells of the graph (\<^verbatim>\<open>theano.shared\<close>): the step, the epoch, and the
  parameters of the layers.
\<close>

datatype shared = StepVar | EpochVar | Param parameter

text \<open>
  Graph expressions: a placeholder, a shared cell, \<^verbatim>\<open>layer.output(e)\<close>, and
  \<^verbatim>\<open>self.error(expected, predicted)\<close>.
\<close>

datatype expr =
    Var variable
  | Shared shared
  | Apply layer expr
  | ErrorFn error_function expr expr

type_synonym update = "parameter \<times> expr"

text \<open>\<^verbatim>\<open>theano.function(inputs, outputs, updates)\<close>.\<close>

record compiled =
  fn_inputs :: "variable list"
  fn_outputs :: expr
  fn_updates :: "update list"

section \<open>create_input_variable and create_output_variable\<close>

definition create_input_variable :: "layer \<Rightarrow> string \<Rightarrow> error + variable" where
  "create_input_variable input_layer variable_name =
     (let dim_to_variable_type = [2 \<mapsto> matrix, 3 \<mapsto> tensor3, 4 \<mapsto> tensor4];
          ndim = weight_ndim input_layer
      in case dim_to_variable_type ndim of
           None \<Rightarrow> Inl ValueError
         | Some variable_type \<Rightarrow> Inr (Variable variable_type variable_name))"

definition create_output_variable :: "error_function \<Rightarrow> string \<Rightarrow> variable" where
  "create_output_variable error_function variable_name =
     (let network_output_dtype =
            (case expected_dtype error_function of
               Some t \<Rightarrow> t
             | None \<Rightarrow> matrix)
      in Variable network_output_dtype variable_name)"

section \<open>The update-rule hook\<close>

text \<open>
  \<^verbatim>\<open>init_param_updates\<close> is a method that subclasses override. What matters at the call
  site is how many positional arguments the method takes besides \<^verbatim>\<open>self\<close>: one
  (\<^verbatim>\<open>parameter\<close>) or two (\<^verbatim>\<open>layer, parameter\<close>).
\<close>

datatype hook =
    Method1 "parameter \<Rightarrow> update list"
  | Method2 "layer \<Rightarrow> parameter \<Rightarrow> update list"

text \<open>Lines 313 and 314: \<^verbatim>\<open>def init_param_updates(self, parameter): return []\<close>.\<close>

definition init_param_updates :: hook where
  "init_param_updates = Method1 (\<lambda>parameter. [])"

text \<open>
  The call \<^verbatim>\<open>self.init_param_updates(layer, parameter)\<close> of line 310: two positional
  arguments. A method that takes one raises \<^verbatim>\<open>TypeError\<close>.
\<close>

fun call_init_param_updates :: "hook \<Rightarrow> layer \<Rightarrow> parameter \<Rightarrow> error + update list" where
  "call_init_param_updates (Method1 f) layer parameter = Inl TypeError"
| "call_init_param_updates (Method2 f) layer parameter = Inr (f layer parameter)"

text \<open>
  The loop of \<^verbatim>\<open>init_layer_updates\<close> over the parameters still to visit, with the list
  \<^verbatim>\<open>updates\<close> that \<^verbatim>\<open>extend\<close> grows.
\<close>

fun layer_updates_loop ::
  "hook \<Rightarrow> layer \<Rightarrow> parameter list \<Rightarrow> update list \<Rightarrow> error + update list" where
  "layer_updates_loop h layer [] updates = Inr updates"
| "layer_updates_loop h layer (parameter # rest) updates =
     (case call_init_param_updates h layer parameter of
        Inl e \<Rightarrow> Inl e
      | Inr us \<Rightarrow> layer_updates_loop h layer rest (updates @ us))"

definition init_layer_updates :: "hook \<Rightarrow> layer \<Rightarrow> error + update list" where
  "init_layer_updates h layer = layer_updates_loop h layer (parameters layer) []"

text \<open>The loop of \<^verbatim>\<open>init_train_updates\<close> over the layers still to visit.\<close>

fun train_updates_loop :: "hook \<Rightarrow> layer list \<Rightarrow> update list \<Rightarrow> error + update list" where
  "train_updates_loop h [] updates = Inr updates"
| "train_updates_loop h (layer # rest) updates =
     (case init_layer_updates h layer of
        Inl e \<Rightarrow> Inl e
      | Inr us \<Rightarrow> train_updates_loop h rest (updates @ us))"

definition init_train_updates :: "hook \<Rightarrow> layer list \<Rightarrow> error + update list" where
  "init_train_updates h train_layers = train_updates_loop h train_layers []"

section \<open>The network object\<close>

text \<open>
  The attributes that the base classes establish in \<^verbatim>\<open>super().__init__\<close> and that the
  constructor reads back: \<^verbatim>\<open>self.step\<close>, \<^verbatim>\<open>self.last_epoch\<close> and \<^verbatim>\<open>self.error\<close>.
  Values of the tensor library (numbers, arrays) are of an arbitrary type \<open>'v\<close>.
\<close>

record 'v BaseNetwork =
  step :: 'v
  last_epoch :: 'v
  error :: error_function

text \<open>
  \<^verbatim>\<open>self.variables\<close>: the placeholders and the derived expressions. The cells
  \<^verbatim>\<open>step\<close> and \<^verbatim>\<open>epoch\<close> live in the store, under \<open>StepVar\<close> and \<open>EpochVar\<close>.
\<close>

record network_variables =
  network_input :: variable
  network_output :: variable
  prediction_func :: expr
  train_prediction_func :: expr
  error_func :: expr

text \<open>\<^verbatim>\<open>self.methods\<close>: the three compiled procedures.\<close>

record network_methods =
  methods_predict_raw :: compiled
  methods_train_epoch :: compiled
  methods_prediction_error :: compiled

record 'v ConstructableNetwork =
  base :: "'v BaseNetwork"
  connection :: chain
  layers :: "layer list"
  input_layer :: layer
  hidden_layers :: "layer list"
  output_layer :: layer
  train_layers :: "layer list"
  variables :: network_variables
  methods :: network_methods
  store :: "shared \<Rightarrow> 'v"

text \<open>
  The collaborators that live outside \<^verbatim>\<open>constructor.py\<close>, as parameters:
  \<^verbatim>\<open>layer.initialize()\<close>, what \<^verbatim>\<open>layer.output\<close> and the error function compute on
  values, \<^verbatim>\<open>asfloat\<close>, \<^verbatim>\<open>format_data\<close> (its second argument is optional),
  \<^verbatim>\<open>does_layer_accept_1d_feature\<close>, and the methods of the base class that
  \<^verbatim>\<open>on_epoch_start_update\<close> and \<^verbatim>\<open>train\<close> delegate to. Both base methods
  receive \<^verbatim>\<open>self\<close>, the whole object, and may change any of it.
\<close>

record 'v env =
  initialize :: "layer \<Rightarrow> layer"
  layer_output :: "layer \<Rightarrow> (shared \<Rightarrow> 'v) \<Rightarrow> 'v \<Rightarrow> 'v"
  error_output :: "error_function \<Rightarrow> 'v \<Rightarrow> 'v \<Rightarrow> 'v"
  asfloat :: "'v \<Rightarrow> 'v"
  format_data :: "'v \<Rightarrow> bool option \<Rightarrow> 'v"
  does_layer_accept_1d_feature :: "layer \<Rightarrow> bool"
  base_on_epoch_start_update ::
    "'v \<Rightarrow> 'v ConstructableNetwork \<Rightarrow> 'v ConstructableNetwork"
  base_train ::
    "'v \<Rightarrow> 'v \<Rightarrow> 'v option \<Rightarrow> 'v option \<Rightarrow> 'v ConstructableNetwork \<Rightarrow> 'v ConstructableNetwork"

section \<open>init_variables and init_methods\<close>

text \<open>
  The loop of \<^verbatim>\<open>init_variables\<close> (lines 239 to 242) over the layers still to visit: the
  inference expression skips a \<^verbatim>\<open>Dropout\<close>, the training expression applies every layer.
\<close>

fun forward_loop :: "layer list \<Rightarrow> expr \<Rightarrow> expr \<Rightarrow> expr \<times> expr" where
  "forward_loop [] train_layer_input layer_input = (train_layer_input, layer_input)"
| "forward_loop (layer # rest) train_layer_input layer_input =
     (let layer_input1 =
            (if layer_class layer \<noteq> Dropout then Apply layer layer_input else layer_input);
          train_layer_input1 = Apply layer train_layer_input
      in forward_loop rest train_layer_input1 layer_input1)"

text \<open>
  \<^verbatim>\<open>init_variables\<close>: the expressions, and the store with the two new cells.
\<close>

definition init_variables ::
  "'v env \<Rightarrow> 'v BaseNetwork \<Rightarrow> layer list \<Rightarrow> variable \<Rightarrow> variable \<Rightarrow> (shared \<Rightarrow> 'v)
     \<Rightarrow> network_variables \<times> (shared \<Rightarrow> 'v)" where
  "init_variables E b tls x y \<sigma> =
     (let (train_layer_input, layer_input) = forward_loop tls (Var x) (Var x);
          prediction = train_layer_input
      in (\<lparr>network_input = x, network_output = y,
           prediction_func = layer_input,
           train_prediction_func = prediction,
           error_func = ErrorFn (error b) (Var y) prediction\<rparr>,
          \<sigma>(StepVar := asfloat E (step b), EpochVar := last_epoch b)))"

text \<open>
  \<^verbatim>\<open>init_methods\<close>: \<^verbatim>\<open>predict_raw\<close> and \<^verbatim>\<open>prediction_error\<close> are compiled with no
  updates, \<^verbatim>\<open>train_epoch\<close> with the list that \<^verbatim>\<open>init_train_updates\<close> returns.
\<close>

definition init_methods :: "hook \<Rightarrow> network_variables \<Rightarrow> layer list \<Rightarrow> error + network_methods" where
  "init_methods h vars tls =
     (let x = network_input vars; y = network_output vars
      in case init_train_updates h tls of
           Inl e \<Rightarrow> Inl e
         | Inr us \<Rightarrow>
             Inr \<lparr>methods_predict_raw =
                    \<lparr>fn_inputs = [x], fn_outputs = prediction_func vars, fn_updates = []\<rparr>,
                  methods_train_epoch =
                    \<lparr>fn_inputs = [x, y], fn_outputs = error_func vars, fn_updates = us\<rparr>,
                  methods_prediction_error =
                    \<lparr>fn_inputs = [x, y], fn_outputs = error_func vars, fn_updates = []\<rparr>\<rparr>)"

section \<open>The constructor\<close>

text \<open>
  \<^verbatim>\<open>ConstructableNetwork.__init__\<close>. \<open>b\<close> holds the attributes of the base classes and
  \<open>\<sigma>\<close> the cells of the layers' parameters. \<^verbatim>\<open>init_layers\<close> initializes the objects of
  \<^verbatim>\<open>train_layers\<close>, which \<^verbatim>\<open>self.layers\<close> and \<^verbatim>\<open>self.input_layer\<close> share.
\<close>

definition ConstructableNetwork_init ::
  "'v env \<Rightarrow> hook \<Rightarrow> 'v BaseNetwork \<Rightarrow> (shared \<Rightarrow> 'v) \<Rightarrow> connection
     \<Rightarrow> error + 'v ConstructableNetwork" where
  "ConstructableNetwork_init E h b \<sigma> c =
     (case clean_layers c of
        Inl e \<Rightarrow> Inl e
      | Inr conn \<Rightarrow>
          (case layers_of conn of
             [] \<Rightarrow> Inl IndexError
           | l0 # others \<Rightarrow>
               (let tls = map (initialize E) (butlast (l0 # others));
                    ls = tls @ [last (l0 # others)]
                in case create_input_variable (hd ls) ''x'' of
                     Inl e \<Rightarrow> Inl e
                   | Inr x \<Rightarrow>
                       (let y = create_output_variable (error b) ''y'';
                            (vars, \<sigma>1) = init_variables E b tls x y \<sigma>
                        in case init_methods h vars tls of
                             Inl e \<Rightarrow> Inl e
                           | Inr ms \<Rightarrow>
                               Inr \<lparr>base = b, connection = conn, layers = ls,
                                    input_layer = hd ls,
                                    hidden_layers = butlast (tl ls),
                                    output_layer = last ls,
                                    train_layers = tls,
                                    variables = vars, methods = ms, store = \<sigma>1\<rparr>))))"

section \<open>Calling a compiled procedure\<close>

text \<open>
  The value of an expression, given the inputs and the store. A placeholder that is not
  among the inputs has no value.
\<close>

fun eval :: "'v env \<Rightarrow> (variable \<rightharpoonup> 'v) \<Rightarrow> (shared \<Rightarrow> 'v) \<Rightarrow> expr \<Rightarrow> 'v option" where
  "eval E \<rho> \<sigma> (Var x) = \<rho> x"
| "eval E \<rho> \<sigma> (Shared s) = Some (\<sigma> s)"
| "eval E \<rho> \<sigma> (Apply layer e) = map_option (layer_output E layer \<sigma>) (eval E \<rho> \<sigma> e)"
| "eval E \<rho> \<sigma> (ErrorFn f expected predicted) =
     (case eval E \<rho> \<sigma> expected of
        None \<Rightarrow> None
      | Some a \<Rightarrow>
          (case eval E \<rho> \<sigma> predicted of
             None \<Rightarrow> None
           | Some p \<Rightarrow> Some (error_output E f a p)))"

text \<open>
  The updates of one call: every new value is computed from the store as it was before the
  call (\<open>\<sigma>0\<close>), then written.
\<close>

fun apply_updates ::
  "'v env \<Rightarrow> (variable \<rightharpoonup> 'v) \<Rightarrow> (shared \<Rightarrow> 'v) \<Rightarrow> update list \<Rightarrow> (shared \<Rightarrow> 'v)
     \<Rightarrow> (shared \<Rightarrow> 'v) option" where
  "apply_updates E \<rho> \<sigma>0 [] \<sigma> = Some \<sigma>"
| "apply_updates E \<rho> \<sigma>0 ((p, e) # us) \<sigma> =
     (case eval E \<rho> \<sigma>0 e of
        None \<Rightarrow> None
      | Some v \<Rightarrow> apply_updates E \<rho> \<sigma>0 us (\<sigma>(Param p := v)))"

definition call_function ::
  "'v env \<Rightarrow> compiled \<Rightarrow> 'v list \<Rightarrow> (shared \<Rightarrow> 'v) \<Rightarrow> ('v \<times> (shared \<Rightarrow> 'v)) option" where
  "call_function E f args \<sigma> =
     (if length args \<noteq> length (fn_inputs f) then None
      else let \<rho> = map_of (zip (fn_inputs f) args)
           in case eval E \<rho> \<sigma> (fn_outputs f) of
                None \<Rightarrow> None
              | Some out \<Rightarrow>
                  (case apply_updates E \<rho> \<sigma> (fn_updates f) \<sigma> of
                     None \<Rightarrow> None
                   | Some \<sigma>1 \<Rightarrow> Some (out, \<sigma>1)))"

section \<open>The methods of the network\<close>

definition prediction_error ::
  "'v env \<Rightarrow> 'v ConstructableNetwork \<Rightarrow> 'v \<Rightarrow> 'v \<Rightarrow> ('v \<times> 'v ConstructableNetwork) option" where
  "prediction_error E self input_data target_data =
     (let input_data1 = format_data E input_data None;
          target_data1 = format_data E target_data None
      in map_option (\<lambda>(out, \<sigma>). (out, self\<lparr>store := \<sigma>\<rparr>))
           (call_function E (methods_prediction_error (methods self))
              [input_data1, target_data1] (store self)))"

definition predict_raw ::
  "'v env \<Rightarrow> 'v ConstructableNetwork \<Rightarrow> 'v \<Rightarrow> ('v \<times> 'v ConstructableNetwork) option" where
  "predict_raw E self input_data =
     (let is_feature1d = does_layer_accept_1d_feature E (input_layer self);
          input_data1 = format_data E input_data (Some is_feature1d)
      in map_option (\<lambda>(out, \<sigma>). (out, self\<lparr>store := \<sigma>\<rparr>))
           (call_function E (methods_predict_raw (methods self)) [input_data1] (store self)))"

definition predict ::
  "'v env \<Rightarrow> 'v ConstructableNetwork \<Rightarrow> 'v \<Rightarrow> ('v \<times> 'v ConstructableNetwork) option" where
  "predict E self input_data =
     (case predict_raw E self input_data of
        None \<Rightarrow> None
      | Some (raw_prediction, self1) \<Rightarrow>
          Some (layer_output E (output_layer self1) (store self1) raw_prediction, self1))"

definition on_epoch_start_update ::
  "'v env \<Rightarrow> 'v ConstructableNetwork \<Rightarrow> 'v \<Rightarrow> 'v ConstructableNetwork" where
  "on_epoch_start_update E self epoch =
     (let self1 = base_on_epoch_start_update E epoch self
      in self1\<lparr>store := (store self1)(EpochVar := epoch)\<rparr>)"

definition train ::
  "'v env \<Rightarrow> 'v ConstructableNetwork \<Rightarrow> 'v \<Rightarrow> 'v \<Rightarrow> 'v option \<Rightarrow> 'v option
     \<Rightarrow> 'v ConstructableNetwork" where
  "train E self input_train target_train input_test target_test =
     (let is_input_feature1d = does_layer_accept_1d_feature E (input_layer self);
          is_target_feature1d = does_layer_accept_1d_feature E (output_layer self);
          input_train1 = format_data E input_train (Some is_input_feature1d);
          target_train1 = format_data E target_train (Some is_target_feature1d);
          input_test1 =
            (case input_test of
               None \<Rightarrow> None
             | Some t \<Rightarrow> Some (format_data E t (Some is_input_feature1d)));
          target_test1 =
            (case target_test of
               None \<Rightarrow> None
             | Some t \<Rightarrow> Some (format_data E t (Some is_target_feature1d)))
      in base_train E input_train1 target_train1 input_test1 target_test1 self)"

definition train_epoch ::
  "'v env \<Rightarrow> 'v ConstructableNetwork \<Rightarrow> 'v \<Rightarrow> 'v \<Rightarrow> ('v \<times> 'v ConstructableNetwork) option" where
  "train_epoch E self input_train target_train =
     map_option (\<lambda>(out, \<sigma>). (out, self\<lparr>store := \<sigma>\<rparr>))
       (call_function E (methods_train_epoch (methods self)) [input_train, target_train]
          (store self))"

section \<open>Auxiliary notions for the statements\<close>

text \<open>
  Asking every layer of a list, in order, for its forward output on the running expression.
\<close>

definition uniform_forward :: "layer list \<Rightarrow> expr \<Rightarrow> expr" where
  "uniform_forward ls e = foldl (\<lambda>acc layer. Apply layer acc) e ls"

text \<open>The layers whose \<^verbatim>\<open>output\<close> an expression applies, innermost first.\<close>

fun applied_layers :: "expr \<Rightarrow> layer list" where
  "applied_layers (Apply layer e) = applied_layers e @ [layer]"
| "applied_layers (Var x) = []"
| "applied_layers (Shared s) = []"
| "applied_layers (ErrorFn f a p) = []"

text \<open>The test \<^verbatim>\<open>not isinstance(layer, Dropout)\<close> of line 240.\<close>

definition not_Dropout :: "layer \<Rightarrow> bool" where
  "not_Dropout layer = (layer_class layer \<noteq> Dropout)"

text \<open>The value of a chain of layers on an input value, given the store.\<close>

definition forward_value :: "'v env \<Rightarrow> (shared \<Rightarrow> 'v) \<Rightarrow> layer list \<Rightarrow> 'v \<Rightarrow> 'v" where
  "forward_value E \<sigma> ls v = foldl (\<lambda>acc layer. layer_output E layer \<sigma> acc) v ls"



section \<open>Concrete inputs\<close>

text \<open>
  A small world over integer values: a layer adds its unit count, the error is the squared
  difference, \<^verbatim>\<open>format_data\<close> doubles its argument, and the base class records the epoch.
\<close>

definition example_env :: "int env" where
  "example_env =
     \<lparr>initialize = (\<lambda>l. l),
      layer_output = (\<lambda>l \<sigma> v. v + layer_size l),
      error_output = (\<lambda>f a p. (a - p) * (a - p)),
      asfloat = (\<lambda>v. v),
      format_data = (\<lambda>v flag. 2 * v),
      does_layer_accept_1d_feature = (\<lambda>l. False),
      base_on_epoch_start_update =
        (\<lambda>epoch self. self\<lparr>base := (base self)\<lparr>last_epoch := epoch\<rparr>\<rparr>),
      base_train = (\<lambda>a b c d self. self)\<rparr>"

definition example_base :: "int BaseNetwork" where
  "example_base =
     \<lparr>step = 1, last_epoch = 0,
      error = \<lparr>error_name = ''mse'', expected_dtype = None\<rparr>\<rparr>"

definition example_store :: "shared \<Rightarrow> int" where
  "example_store s = 0"

definition example_dense :: layer where
  "example_dense =
     \<lparr>layer_class = Plain, layer_size = 2, weight_ndim = 2,
      parameters = [''weight'', ''bias'']\<rparr>"

definition example_dropout :: layer where
  "example_dropout =
     \<lparr>layer_class = Dropout, layer_size = 3, weight_ndim = 2, parameters = []\<rparr>"

definition example_output :: layer where
  "example_output =
     \<lparr>layer_class = Output, layer_size = 1, weight_ndim = 2, parameters = []\<rparr>"

text \<open>A hook of a subclass, with the two arguments of the call site.\<close>

definition example_hook :: hook where
  "example_hook = Method2 (\<lambda>layer parameter. [(parameter, Shared (Param parameter))])"

text \<open>
  A pipeline of a dense layer, a dropout layer and the output layer, and the object that the
  constructor builds from it with \<open>example_hook\<close>.
\<close>

definition example_connection :: connection where
  "example_connection =
     ObjSeq PyList [Layer example_dense, Layer example_dropout, Layer example_output]"

definition example_network :: "int ConstructableNetwork" where
  "example_network =
     \<lparr>base = example_base,
      connection =
        LayerConnection (Layer example_dense)
          (LayerConnection (Layer example_dropout) (Layer example_output)),
      layers = [example_dense, example_dropout, example_output],
      input_layer = example_dense,
      hidden_layers = [example_dropout],
      output_layer = example_output,
      train_layers = [example_dense, example_dropout],
      variables =
        \<lparr>network_input = Variable matrix ''x'',
         network_output = Variable matrix ''y'',
         prediction_func = Apply example_dense (Var (Variable matrix ''x'')),
         train_prediction_func =
           Apply example_dropout (Apply example_dense (Var (Variable matrix ''x''))),
         error_func =
           ErrorFn (error example_base) (Var (Variable matrix ''y''))
             (Apply example_dropout (Apply example_dense (Var (Variable matrix ''x''))))\<rparr>,
      methods =
        \<lparr>methods_predict_raw =
           \<lparr>fn_inputs = [Variable matrix ''x''],
            fn_outputs = Apply example_dense (Var (Variable matrix ''x'')),
            fn_updates = []\<rparr>,
         methods_train_epoch =
           \<lparr>fn_inputs = [Variable matrix ''x'', Variable matrix ''y''],
            fn_outputs =
              ErrorFn (error example_base) (Var (Variable matrix ''y''))
                (Apply example_dropout (Apply example_dense (Var (Variable matrix ''x'')))),
            fn_updates =
              [(''weight'', Shared (Param ''weight'')), (''bias'', Shared (Param ''bias''))]\<rparr>,
         methods_prediction_error =
           \<lparr>fn_inputs = [Variable matrix ''x'', Variable matrix ''y''],
            fn_outputs =
              ErrorFn (error example_base) (Var (Variable matrix ''y''))
                (Apply example_dropout (Apply example_dense (Var (Variable matrix ''x'')))),
            fn_updates = []\<rparr>\<rparr>,
      store = example_store(StepVar := 1, EpochVar := 0)\<rparr>"

section \<open>Properties of clean_layers\<close>

lemma link_layers_output_layer:
  "chain_output_layer (link_layers xs c) = chain_output_layer c"
  by (induction xs arbitrary: c) simp_all

lemma link_layers_layers_of:
  "layers_of (link_layers xs c) = concat (map layers_of (rev xs)) @ layers_of c"
  by (induction xs arbitrary: c) simp_all

lemma link_layers_snoc:
  "link_layers (xs @ [x]) c = LayerConnection x (link_layers xs c)"
  by (induction xs arbitrary: c) simp_all

lemma validate_output_connection:
  "validate_output (LayerConnection a b) =
     (if layer_class (chain_output_layer b) = Output then Inr (LayerConnection a b)
      else Inl NetworkConnectionError)"
  by (simp add: validate_output_def)

lemma validate_output_bare_layer: "validate_output (Layer l) = Inl AttributeError"
  by (simp add: validate_output_def)

lemma clean_layers_linked:
  "clean_layers (Obj (LayerConnection a b)) =
     (if layer_class (chain_output_layer b) = Output then Inr (LayerConnection a b)
      else Inl NetworkConnectionError)"
  by (simp add: clean_layers_def validate_output_connection)

lemma clean_layers_layer_list:
  "xs \<noteq> [] \<Longrightarrow> clean_layers (ObjSeq k (Layer l # xs)) =
     (if layer_class (chain_output_layer (last xs)) = Output
      then Inr (LayerConnection (Layer l) (link_layers (rev (butlast xs)) (last xs)))
      else Inl NetworkConnectionError)"
  by (cases k) (simp_all add: clean_layers_def link_layers_snoc validate_output_connection
      link_layers_output_layer)

lemma clean_layers_single: "clean_layers (ObjSeq k [Layer l]) = Inl AttributeError"
  by (cases k) (simp_all add: clean_layers_def validate_output_bare_layer)

lemma layers_of_linked_list:
  "xs \<noteq> [] \<Longrightarrow> layers_of (link_layers (rev (butlast xs)) (last xs)) = concat (map layers_of xs)"
proof -
  assume ne: "xs \<noteq> []"
  have "concat (map layers_of (butlast xs)) @ layers_of (last xs) = concat (map layers_of (butlast xs @ [last xs]))"
    by simp
  with ne show ?thesis by (simp add: link_layers_layers_of)
qed

section \<open>Properties of the graph builder\<close>

lemma forward_loop_eq:
  "forward_loop ls t i = (uniform_forward ls t, uniform_forward (filter not_Dropout ls) i)"
  by (induction ls arbitrary: t i) (simp_all add: uniform_forward_def not_Dropout_def)

lemma applied_layers_uniform_forward:
  "applied_layers (uniform_forward ls e) = applied_layers e @ ls"
  by (induction ls arbitrary: e) (simp_all add: uniform_forward_def)


lemma init_variables_exprs:
  "fst (init_variables E b tls x y \<sigma>) =
     \<lparr>network_input = x, network_output = y,
      prediction_func = uniform_forward (filter not_Dropout tls) (Var x),
      train_prediction_func = uniform_forward tls (Var x),
      error_func = ErrorFn (error b) (Var y) (uniform_forward tls (Var x))\<rparr>"
  by (simp add: init_variables_def forward_loop_eq)

lemma init_variables_store:
  "snd (init_variables E b tls x y \<sigma>) = \<sigma>(StepVar := asfloat E (step b), EpochVar := last_epoch b)"
  by (simp add: init_variables_def forward_loop_eq)

section \<open>Properties of the update generation\<close>

lemma layer_updates_loop_Method2:
  "layer_updates_loop (Method2 f) layer ps acc = Inr (acc @ concat (map (f layer) ps))"
  by (induction ps arbitrary: acc) simp_all

lemma init_layer_updates_Method2:
  "init_layer_updates (Method2 f) layer = Inr (concat (map (f layer) (parameters layer)))"
  by (simp add: init_layer_updates_def layer_updates_loop_Method2)

lemma train_updates_loop_Method2:
  "train_updates_loop (Method2 f) ls acc =
     Inr (acc @ concat (map (\<lambda>layer. concat (map (f layer) (parameters layer))) ls))"
  by (induction ls arbitrary: acc) (simp_all add: init_layer_updates_Method2)

lemma init_train_updates_Method2:
  "init_train_updates (Method2 f) ls =
     Inr (concat (map (\<lambda>layer. concat (map (f layer) (parameters layer))) ls))"
  by (simp add: init_train_updates_def train_updates_loop_Method2)

lemma layer_updates_loop_default:
  "ps \<noteq> [] \<Longrightarrow> layer_updates_loop init_param_updates layer ps acc = Inl TypeError"
  by (cases ps) (simp_all add: init_param_updates_def)

lemma init_layer_updates_default:
  "init_layer_updates init_param_updates layer =
     (if parameters layer = [] then Inr [] else Inl TypeError)"
  by (simp add: init_layer_updates_def layer_updates_loop_default)

section \<open>Properties of the constructor\<close>

lemma layers_of_nonempty: "layers_of c \<noteq> []"
  by (induction c) simp_all

lemma length_layers_of_connection: "2 \<le> length (layers_of (LayerConnection a b))"
proof -
  have "1 \<le> length (layers_of a)" "1 \<le> length (layers_of b)"
    using layers_of_nonempty [of a] layers_of_nonempty [of b]
    by (simp_all add: Suc_le_eq)
  then show ?thesis by simp
qed

lemma validate_output_Inr:
  "validate_output c = Inr conn \<Longrightarrow>
     conn = c \<and> (\<exists>a b. c = LayerConnection a b) \<and> layer_class (chain_output_layer c) = Output"
  by (cases c) (auto simp: validate_output_def split: if_splits)

lemma clean_layers_Inr:
  "clean_layers c = Inr conn \<Longrightarrow>
     (\<exists>a b. conn = LayerConnection a b) \<and> layer_class (chain_output_layer conn) = Output"
  unfolding clean_layers_def Let_def
  by (auto split: connection.splits pyvalue.splits container.splits list.splits chain.splits
      dest!: validate_output_Inr)

lemma create_input_variable_cases:
  "create_input_variable l name =
     (if weight_ndim l = 2 then Inr (Variable matrix name)
      else if weight_ndim l = 3 then Inr (Variable tensor3 name)
      else if weight_ndim l = 4 then Inr (Variable tensor4 name)
      else Inl ValueError)"
  by (simp add: create_input_variable_def)

lemma hd_initialized:
  "2 \<le> length ls0 \<Longrightarrow> hd (map f (butlast ls0) @ [last ls0]) = f (hd ls0)"
  by (cases ls0; cases "tl ls0") auto

lemma init_bad_rank:
  assumes "clean_layers c = Inr conn"
    and "weight_ndim (initialize E (hd (layers_of conn))) \<notin> {2, 3, 4}"
  shows "ConstructableNetwork_init E h b \<sigma> c = Inl ValueError"
proof -
  from assms(1) obtain a0 b0 where conn: "conn = LayerConnection a0 b0"
    using clean_layers_Inr by blast
  have len: "2 \<le> length (layers_of conn)"
    by (simp only: conn length_layers_of_connection)
  then obtain l0 others where ls: "layers_of conn = l0 # others"
    by (cases "layers_of conn") auto
  have "hd (map (initialize E) (butlast (l0 # others)) @ [last (l0 # others)]) = initialize E l0"
    using hd_initialized [of "l0 # others" "initialize E"] len ls by simp
  moreover have "create_input_variable (initialize E l0) ''x'' = Inl ValueError"
    using assms(2) ls by (simp add: create_input_variable_cases)
  ultimately show ?thesis
    using assms(1) ls by (simp add: ConstructableNetwork_init_def Let_def)
qed

lemma init_unfold:
  assumes "clean_layers c = Inr conn"
  shows "ConstructableNetwork_init E h b \<sigma> c =
     (case create_input_variable (initialize E (hd (layers_of conn))) ''x'' of
        Inl e \<Rightarrow> Inl e
      | Inr x \<Rightarrow>
          (case init_methods h
                  (fst (init_variables E b (map (initialize E) (butlast (layers_of conn))) x
                         (create_output_variable (error b) ''y'') \<sigma>))
                  (map (initialize E) (butlast (layers_of conn))) of
             Inl e \<Rightarrow> Inl e
           | Inr ms \<Rightarrow>
               Inr \<lparr>base = b, connection = conn,
                    layers = map (initialize E) (butlast (layers_of conn)) @ [last (layers_of conn)],
                    input_layer = initialize E (hd (layers_of conn)),
                    hidden_layers =
                      butlast (tl (map (initialize E) (butlast (layers_of conn))
                                   @ [last (layers_of conn)])),
                    output_layer = last (layers_of conn),
                    train_layers = map (initialize E) (butlast (layers_of conn)),
                    variables =
                      fst (init_variables E b (map (initialize E) (butlast (layers_of conn))) x
                            (create_output_variable (error b) ''y'') \<sigma>),
                    methods = ms,
                    store = \<sigma>(StepVar := asfloat E (step b), EpochVar := last_epoch b)\<rparr>))"
proof -
  from assms obtain a0 b0 where conn: "conn = LayerConnection a0 b0"
    using clean_layers_Inr by blast
  have len: "2 \<le> length (layers_of conn)"
    by (simp only: conn length_layers_of_connection)
  then obtain l0 others where ls: "layers_of conn = l0 # others"
    by (cases "layers_of conn") auto
  have hd: "hd (map (initialize E) (butlast (l0 # others)) @ [last (l0 # others)]) = initialize E l0"
    using hd_initialized [of "l0 # others" "initialize E"] len ls by simp
  have eq1: "ConstructableNetwork_init E h b \<sigma> c =
     (let tls = map (initialize E) (butlast (l0 # others));
          ls = tls @ [last (l0 # others)]
      in case create_input_variable (hd ls) ''x'' of
           Inl e \<Rightarrow> Inl e
         | Inr x \<Rightarrow>
             (let y = create_output_variable (error b) ''y'';
                  (vars, \<sigma>1) = init_variables E b tls x y \<sigma>
              in case init_methods h vars tls of
                   Inl e \<Rightarrow> Inl e
                 | Inr ms \<Rightarrow>
                     Inr \<lparr>base = b, connection = conn, layers = ls,
                          input_layer = hd ls,
                          hidden_layers = butlast (tl ls),
                          output_layer = last ls,
                          train_layers = tls,
                          variables = vars, methods = ms, store = \<sigma>1\<rparr>))"
    using assms ls by (simp add: ConstructableNetwork_init_def)
  show ?thesis
    unfolding eq1 Let_def hd
    by (simp add: ls case_prod_beta init_variables_store split: sum.splits)
qed

lemma init_Inr:
  assumes "ConstructableNetwork_init E h b \<sigma> c = Inr net"
  shows "\<exists>conn. clean_layers c = Inr conn
           \<and> connection net = conn
           \<and> layers net = map (initialize E) (butlast (layers_of conn)) @ [last (layers_of conn)]
           \<and> input_layer net = initialize E (hd (layers_of conn))
           \<and> output_layer net = last (layers_of conn)
           \<and> train_layers net = map (initialize E) (butlast (layers_of conn))
           \<and> create_input_variable (input_layer net) ''x'' = Inr (network_input (variables net))
           \<and> variables net =
                fst (init_variables E b (train_layers net) (network_input (variables net))
                      (create_output_variable (error b) ''y'') \<sigma>)
           \<and> store net = \<sigma>(StepVar := asfloat E (step b), EpochVar := last_epoch b)
           \<and> init_methods h (variables net) (train_layers net) = Inr (methods net)
           \<and> base net = b"
proof -
  from assms obtain conn where cl: "clean_layers c = Inr conn"
    by (auto simp: ConstructableNetwork_init_def split: sum.splits)
  show ?thesis
    using assms unfolding init_unfold [OF cl]
    by (auto simp: cl init_variables_exprs split: sum.splits)
qed

lemma init_methods_Inl:
  "init_train_updates h tls = Inl e \<Longrightarrow> init_methods h vars tls = Inl e"
  by (simp add: init_methods_def)

lemma init_methods_Inr:
  "init_train_updates h tls = Inr us \<Longrightarrow>
     init_methods h vars tls =
       Inr \<lparr>methods_predict_raw =
              \<lparr>fn_inputs = [network_input vars], fn_outputs = prediction_func vars,
               fn_updates = []\<rparr>,
            methods_train_epoch =
              \<lparr>fn_inputs = [network_input vars, network_output vars],
               fn_outputs = error_func vars, fn_updates = us\<rparr>,
            methods_prediction_error =
              \<lparr>fn_inputs = [network_input vars, network_output vars],
               fn_outputs = error_func vars, fn_updates = []\<rparr>\<rparr>"
  by (simp add: init_methods_def Let_def)

lemma init_methods_fields:
  "init_methods h vars tls = Inr m \<Longrightarrow>
     init_train_updates h tls = Inr (fn_updates (methods_train_epoch m))
     \<and> methods_predict_raw m =
         \<lparr>fn_inputs = [network_input vars], fn_outputs = prediction_func vars,
          fn_updates = []\<rparr>
     \<and> methods_prediction_error m =
         \<lparr>fn_inputs = [network_input vars, network_output vars],
          fn_outputs = error_func vars, fn_updates = []\<rparr>
     \<and> fn_inputs (methods_train_epoch m) = [network_input vars, network_output vars]
     \<and> fn_outputs (methods_train_epoch m) = error_func vars"
  by (auto simp: init_methods_def Let_def split: sum.splits)

lemma create_input_variable_name:
  "create_input_variable l name = Inr x \<Longrightarrow> \<exists>ty. x = Variable ty name"
  by (auto simp: create_input_variable_cases split: if_splits)

lemma create_output_variable_name: "\<exists>ty. create_output_variable f name = Variable ty name"
  by (simp add: create_output_variable_def Let_def)

lemma constructed_methods:
  assumes ok: "ConstructableNetwork_init E h b s0 c = Inr net"
  shows "\<exists>x y. x \<noteq> y
     \<and> methods_predict_raw (methods net) =
         \<lparr>fn_inputs = [x],
          fn_outputs = uniform_forward (filter not_Dropout (train_layers net)) (Var x),
          fn_updates = []\<rparr>
     \<and> methods_prediction_error (methods net) =
         \<lparr>fn_inputs = [x, y],
          fn_outputs = ErrorFn (error b) (Var y) (uniform_forward (train_layers net) (Var x)),
          fn_updates = []\<rparr>"
proof -
  from init_Inr [OF ok] have
    civ: "create_input_variable (input_layer net) ''x'' = Inr (network_input (variables net))"
    and vars: "variables net =
                fst (init_variables E b (train_layers net) (network_input (variables net))
                      (create_output_variable (error b) ''y'') s0)"
    and ms: "init_methods h (variables net) (train_layers net) = Inr (methods net)"
    by auto
  obtain tx where x: "network_input (variables net) = Variable tx ''x''"
    using create_input_variable_name [OF civ] by blast
  obtain ty where y: "create_output_variable (error b) ''y'' = Variable ty ''y''"
    using create_output_variable_name by blast
  have ne: "Variable tx ''x'' \<noteq> Variable ty ''y''" by simp
  have v: "variables net =
      \<lparr>network_input = Variable tx ''x'', network_output = Variable ty ''y'',
       prediction_func =
         uniform_forward (filter not_Dropout (train_layers net)) (Var (Variable tx ''x'')),
       train_prediction_func = uniform_forward (train_layers net) (Var (Variable tx ''x'')),
       error_func = ErrorFn (error b) (Var (Variable ty ''y''))
                      (uniform_forward (train_layers net) (Var (Variable tx ''x'')))\<rparr>"
    using vars by (simp add: init_variables_exprs x y)
  from init_methods_fields [OF ms] ne show ?thesis
    by (simp add: v)
qed

section \<open>Evaluation of the compiled procedures\<close>

lemma eval_uniform_forward:
  "eval E \<rho> s (uniform_forward ls e) = map_option (forward_value E s ls) (eval E \<rho> s e)"
proof (induction ls arbitrary: e)
  case Nil
  show ?case by (simp add: uniform_forward_def forward_value_def option.map_ident)
next
  case (Cons l ls)
  have "uniform_forward (l # ls) e = uniform_forward ls (Apply l e)"
    by (simp add: uniform_forward_def)
  moreover have "forward_value E s (l # ls) = (\<lambda>v. forward_value E s ls (layer_output E l s v))"
    by (simp add: forward_value_def fun_eq_iff)
  ultimately show ?case
    by (simp add: Cons.IH option.map_comp comp_def)
qed

lemma call_predict_raw:
  "call_function E
     \<lparr>fn_inputs = [x], fn_outputs = uniform_forward ls (Var x), fn_updates = []\<rparr> [v] s
   = Some (forward_value E s ls v, s)"
  by (simp add: call_function_def eval_uniform_forward)

lemma call_prediction_error:
  "x \<noteq> y \<Longrightarrow>
   call_function E
     \<lparr>fn_inputs = [x, y], fn_outputs = ErrorFn f (Var y) (uniform_forward ls (Var x)),
      fn_updates = []\<rparr> [a, t] s
   = Some (error_output E f t (forward_value E s ls a), s)"
  by (simp add: call_function_def eval_uniform_forward)

lemma eval_format_data_irrelevant:
  "eval (E\<lparr>format_data := g\<rparr>) \<rho> s e = eval E \<rho> s e"
  by (induction e) (simp_all split: option.splits)

lemma apply_updates_format_data_irrelevant:
  "apply_updates (E\<lparr>format_data := g\<rparr>) \<rho> s0 us s = apply_updates E \<rho> s0 us s"
  by (induction us arbitrary: s) (auto simp: eval_format_data_irrelevant split: option.splits)

lemma call_function_format_data_irrelevant:
  "call_function (E\<lparr>format_data := g\<rparr>) f args s = call_function E f args s"
  by (simp add: call_function_def eval_format_data_irrelevant
      apply_updates_format_data_irrelevant Let_def split: option.splits)

section \<open>The concrete network\<close>

lemma example_clean:
  "clean_layers example_connection =
     Inr (LayerConnection (Layer example_dense)
           (LayerConnection (Layer example_dropout) (Layer example_output)))"
  by (simp add: example_connection_def clean_layers_layer_list example_output_def)

lemma example_updates:
  "init_train_updates example_hook [example_dense, example_dropout] =
     Inr [(''weight'', Shared (Param ''weight'')), (''bias'', Shared (Param ''bias''))]"
  by (simp add: example_hook_def init_train_updates_Method2 example_dense_def
      example_dropout_def)

lemma example_network_constructed:
  "ConstructableNetwork_init example_env example_hook example_base example_store
     example_connection = Inr example_network"
proof -
  have tls: "map (initialize example_env)
      (butlast (layers_of (LayerConnection (Layer example_dense)
           (LayerConnection (Layer example_dropout) (Layer example_output)))))
      = [example_dense, example_dropout]"
    by (simp add: example_env_def)
  have il: "create_input_variable (initialize example_env
      (hd (layers_of (LayerConnection (Layer example_dense)
           (LayerConnection (Layer example_dropout) (Layer example_output)))))) ''x''
      = Inr (Variable matrix ''x'')"
    by (simp add: create_input_variable_cases example_env_def example_dense_def)
  have nd: "not_Dropout example_dense" "\<not> not_Dropout example_dropout"
    by (simp_all add: not_Dropout_def example_dense_def example_dropout_def)
  have y: "create_output_variable (error example_base) ''y'' = Variable matrix ''y''"
    by (simp add: create_output_variable_def example_base_def)
  have ini: "initialize example_env example_dense = example_dense"
    by (simp add: example_env_def)
  have st: "asfloat example_env (step example_base) = 1" "last_epoch example_base = 0"
    by (simp_all add: example_env_def example_base_def)
  show ?thesis
    unfolding init_unfold [OF example_clean] tls il
    by (simp add: init_variables_exprs init_methods_Inr [OF example_updates] nd y ini st
        uniform_forward_def example_network_def)
qed

section \<open>Values of the two passes\<close>










section \<open>The claims\<close>

text \<open>
  Claim C1. With the hook as the base class defines it, generating the updates of a layer
  that has a parameter does not return the empty list. The method takes one argument
  (\<^verbatim>\<open>parameter\<close>) and \<^verbatim>\<open>init_layer_updates\<close> calls it with two
  (\<^verbatim>\<open>layer, parameter\<close>): the call raises \<^verbatim>\<open>TypeError\<close>, and so do
  \<^verbatim>\<open>init_train_updates\<close> and the constructor, here for a dense layer with a weight
  and a bias followed by the output layer.
\<close>

theorem default_hook_raises_TypeError:
  "init_layer_updates init_param_updates example_dense = Inl TypeError
   \<and> init_train_updates init_param_updates [example_dense] = Inl TypeError
   \<and> ConstructableNetwork_init example_env init_param_updates example_base example_store
        (ObjSeq PyList [Layer example_dense, Layer example_output]) = Inl TypeError"
proof -
  have a: "init_layer_updates init_param_updates example_dense = Inl TypeError"
    by (simp add: init_layer_updates_default example_dense_def)
  have b: "init_train_updates init_param_updates [example_dense] = Inl TypeError"
    by (simp add: init_train_updates_def a)
  have cl: "clean_layers (ObjSeq PyList [Layer example_dense, Layer example_output])
      = Inr (LayerConnection (Layer example_dense) (Layer example_output))"
    by (simp add: clean_layers_layer_list example_output_def)
  have c: "ConstructableNetwork_init example_env init_param_updates example_base example_store
        (ObjSeq PyList [Layer example_dense, Layer example_output]) = Inl TypeError"
  proof -
    have tls: "map (initialize example_env)
        (butlast (layers_of (LayerConnection (Layer example_dense) (Layer example_output))))
        = [example_dense]"
      by (simp add: example_env_def)
    have il: "create_input_variable (initialize example_env
        (hd (layers_of (LayerConnection (Layer example_dense) (Layer example_output))))) ''x''
        = Inr (Variable matrix ''x'')"
      by (simp add: create_input_variable_cases example_env_def example_dense_def)
    show ?thesis
      unfolding init_unfold [OF cl] tls il
      by (simp add: init_methods_Inl [OF b])
  qed
  from a b c show ?thesis by simp
qed



text \<open>
  Claim C3. When the weight of the input layer has a rank other than 2, 3 or 4, the
  constructor raises \<^verbatim>\<open>ValueError\<close> (the exception that \<^verbatim>\<open>create_input_variable\<close>
  raises for the rank), whatever the hook: no network and no compiled procedure is produced.
  \<^verbatim>\<open>create_input_variable\<close> returns a matrix placeholder for rank 2, a 3-tensor for
  rank 3, a 4-tensor for rank 4, and raises for any other rank. With a rank of 2, 3 or 4
  and a hook that takes the two arguments of the call site, the constructor returns a
  network whose placeholder \<^verbatim>\<open>x\<close> is of the matching kind; and every network that is
  constructed has such an input layer and placeholder.
\<close>

theorem invalid_input_rank_raises:
  assumes "clean_layers c = Inr conn"
  shows "(weight_ndim (initialize E (hd (layers_of conn))) \<notin> {2, 3, 4}
            \<longrightarrow> ConstructableNetwork_init E h b st c = Inl ValueError)
       \<and> (\<forall>net. ConstructableNetwork_init E h b st c = Inr net \<longrightarrow>
             input_layer net = initialize E (hd (layers_of conn))
             \<and> weight_ndim (input_layer net) \<in> {2, 3, 4}
             \<and> network_input (variables net) =
                 Variable (if weight_ndim (input_layer net) = 2 then matrix
                           else if weight_ndim (input_layer net) = 3 then tensor3
                           else tensor4) ''x'')
       \<and> create_input_variable l name =
           (if weight_ndim l = 2 then Inr (Variable matrix name)
            else if weight_ndim l = 3 then Inr (Variable tensor3 name)
            else if weight_ndim l = 4 then Inr (Variable tensor4 name)
            else Inl ValueError)
       \<and> (weight_ndim (initialize E (hd (layers_of conn))) \<in> {2, 3, 4} \<longrightarrow>
            (\<exists>net. ConstructableNetwork_init E (Method2 f) b st c = Inr net
               \<and> input_layer net = initialize E (hd (layers_of conn))
               \<and> network_input (variables net) =
                   Variable (if weight_ndim (initialize E (hd (layers_of conn))) = 2 then matrix
                             else if weight_ndim (initialize E (hd (layers_of conn))) = 3
                                  then tensor3
                             else tensor4) ''x''))"
proof (intro conjI impI allI)
  assume "weight_ndim (initialize E (hd (layers_of conn))) \<notin> {2, 3, 4}"
  with assms show "ConstructableNetwork_init E h b st c = Inl ValueError"
    by (rule init_bad_rank)
next
  fix net
  assume ok: "ConstructableNetwork_init E h b st c = Inr net"
  from init_Inr [OF ok] assms
  have il: "input_layer net = initialize E (hd (layers_of conn))"
    and civ: "create_input_variable (input_layer net) ''x'' = Inr (network_input (variables net))"
    by auto
  show "input_layer net = initialize E (hd (layers_of conn))" by (rule il)
  from civ show "weight_ndim (input_layer net) \<in> {2, 3, 4}"
    by (simp add: create_input_variable_cases split: if_splits)
  from civ show "network_input (variables net) =
                 Variable (if weight_ndim (input_layer net) = 2 then matrix
                           else if weight_ndim (input_layer net) = 3 then tensor3
                           else tensor4) ''x''"
    by (simp add: create_input_variable_cases split: if_splits)
next
  show "create_input_variable l name =
           (if weight_ndim l = 2 then Inr (Variable matrix name)
            else if weight_ndim l = 3 then Inr (Variable tensor3 name)
            else if weight_ndim l = 4 then Inr (Variable tensor4 name)
            else Inl ValueError)"
    by (rule create_input_variable_cases)
next
  assume rank: "weight_ndim (initialize E (hd (layers_of conn))) \<in> {2, 3, 4}"
  then have civ: "create_input_variable (initialize E (hd (layers_of conn))) ''x'' =
      Inr (Variable (if weight_ndim (initialize E (hd (layers_of conn))) = 2 then matrix
                     else if weight_ndim (initialize E (hd (layers_of conn))) = 3 then tensor3
                     else tensor4) ''x'')"
    by (auto simp: create_input_variable_cases)
  show "\<exists>net. ConstructableNetwork_init E (Method2 f) b st c = Inr net
               \<and> input_layer net = initialize E (hd (layers_of conn))
               \<and> network_input (variables net) =
                   Variable (if weight_ndim (initialize E (hd (layers_of conn))) = 2 then matrix
                             else if weight_ndim (initialize E (hd (layers_of conn))) = 3
                                  then tensor3
                             else tensor4) ''x''"
    unfolding init_unfold [OF assms] civ
    by (simp add: init_methods_Inr [OF init_train_updates_Method2] init_variables_exprs)
qed

theorem invalid_input_rank_raises_witness:
  "ConstructableNetwork_init example_env init_param_updates example_base example_store
     (ObjSeq PyList [Layer (example_dense\<lparr>weight_ndim := 5\<rparr>), Layer example_output])
     = Inl ValueError
   \<and> create_input_variable (example_dense\<lparr>weight_ndim := 3\<rparr>) ''x''
       = Inr (Variable tensor3 ''x'')
   \<and> (\<exists>net. ConstructableNetwork_init example_env
              (Method2 (\<lambda>layer parameter. [(parameter, Shared (Param parameter))]))
              example_base example_store
              (ObjSeq PyList [Layer (example_dense\<lparr>weight_ndim := 4\<rparr>), Layer example_output])
              = Inr net
        \<and> input_layer net = example_dense\<lparr>weight_ndim := 4\<rparr>
        \<and> network_input (variables net) = Variable tensor4 ''x'')"
proof -
  have cl: "clean_layers (ObjSeq PyList [Layer (example_dense\<lparr>weight_ndim := n\<rparr>),
        Layer example_output])
      = Inr (LayerConnection (Layer (example_dense\<lparr>weight_ndim := n\<rparr>)) (Layer example_output))"
    for n
    by (simp add: clean_layers_layer_list example_output_def)
  have il: "initialize example_env
      (hd (layers_of (LayerConnection (Layer (example_dense\<lparr>weight_ndim := n\<rparr>))
            (Layer example_output)))) = example_dense\<lparr>weight_ndim := n\<rparr>" for n
    by (simp add: example_env_def)
  have a: "ConstructableNetwork_init example_env init_param_updates example_base example_store
     (ObjSeq PyList [Layer (example_dense\<lparr>weight_ndim := 5\<rparr>), Layer example_output])
     = Inl ValueError"
    using invalid_input_rank_raises [OF cl [of 5], where E = example_env
        and h = init_param_updates and b = example_base and st = example_store,
        THEN conjunct1]
    unfolding il by simp
  have b: "create_input_variable (example_dense\<lparr>weight_ndim := 3\<rparr>) ''x''
       = Inr (Variable tensor3 ''x'')"
    using invalid_input_rank_raises [OF cl [of 5],
        where l = "example_dense\<lparr>weight_ndim := 3\<rparr>" and name = "''x''",
        THEN conjunct2, THEN conjunct2, THEN conjunct1]
    by simp
  have c: "\<exists>net. ConstructableNetwork_init example_env
              (Method2 (\<lambda>layer parameter. [(parameter, Shared (Param parameter))]))
              example_base example_store
              (ObjSeq PyList [Layer (example_dense\<lparr>weight_ndim := 4\<rparr>), Layer example_output])
              = Inr net
        \<and> input_layer net = example_dense\<lparr>weight_ndim := 4\<rparr>
        \<and> network_input (variables net) = Variable tensor4 ''x''"
    using invalid_input_rank_raises [OF cl [of 4], where E = example_env and b = example_base
        and st = example_store
        and f = "\<lambda>layer parameter. [(parameter, Shared (Param parameter))]",
        THEN conjunct2, THEN conjunct2, THEN conjunct2]
    unfolding il by simp
  from a b c show ?thesis by blast
qed

text \<open>
  Claim C4. For a linked connection, for a sequence of two or more elements that starts
  with a layer, and for a sequence of two or more integers, \<^verbatim>\<open>clean_layers\<close> raises
  \<^verbatim>\<open>NetworkConnectionError\<close> when the terminal layer is not an \<^verbatim>\<open>Output\<close> and
  returns the linked pipeline, with the layers in their order, when it is. An error of
  \<^verbatim>\<open>clean_layers\<close> is the result of the constructor: no network is produced.
\<close>

theorem clean_layers_validates_terminal_layer:
  "clean_layers (Obj (LayerConnection a b)) =
     (if layer_class (chain_output_layer b) = Output then Inr (LayerConnection a b)
      else Inl NetworkConnectionError)
   \<and> (xs \<noteq> [] \<longrightarrow>
        clean_layers (ObjSeq k (Layer l # xs)) =
          (if layer_class (chain_output_layer (last xs)) = Output
           then Inr (link_layers (rev (butlast (Layer l # xs))) (last (Layer l # xs)))
           else Inl NetworkConnectionError)
        \<and> layers_of (link_layers (rev (butlast (Layer l # xs))) (last (Layer l # xs)))
            = concat (map layers_of (Layer l # xs)))
   \<and> (ns \<noteq> [] \<longrightarrow>
        clean_layers (IntSeq k (n # ns)) =
          Inr (link_layers (rev (butlast (generate_layers (n # ns))))
                (last (generate_layers (n # ns)))))
   \<and> (clean_layers c = Inl e \<longrightarrow> ConstructableNetwork_init E h bn st c = Inl e)"
proof (intro conjI impI)
  show "clean_layers (Obj (LayerConnection a b)) =
     (if layer_class (chain_output_layer b) = Output then Inr (LayerConnection a b)
      else Inl NetworkConnectionError)"
    by (rule clean_layers_linked)
next
  assume "xs \<noteq> []"
  then show "clean_layers (ObjSeq k (Layer l # xs)) =
          (if layer_class (chain_output_layer (last xs)) = Output
           then Inr (link_layers (rev (butlast (Layer l # xs))) (last (Layer l # xs)))
           else Inl NetworkConnectionError)"
    by (simp add: clean_layers_layer_list link_layers_snoc)
next
  assume "xs \<noteq> []"
  then show "layers_of (link_layers (rev (butlast (Layer l # xs))) (last (Layer l # xs)))
            = concat (map layers_of (Layer l # xs))"
    using layers_of_linked_list [of "Layer l # xs"] by simp
next
  assume ne: "ns \<noteq> []"
  then obtain ms m where ns: "ns = ms @ [m]"
    by (cases ns rule: rev_cases) auto
  have g: "generate_layers (n # ns) =
      Layer (default_layer Plain n) # (map (\<lambda>n. Layer (default_layer Plain n)) ms
        @ [Layer (default_layer Output m)])"
    by (simp add: generate_layers_def ns butlast_append)
  have "clean_layers (IntSeq k (n # ns)) =
      clean_layers (ObjSeq PyList (generate_layers (n # ns)))"
    by (simp add: clean_layers_def)
  also have "\<dots> = Inr (link_layers (rev (butlast (generate_layers (n # ns))))
                (last (generate_layers (n # ns))))"
    unfolding g
    by (subst clean_layers_layer_list) (simp_all add: default_layer_def link_layers_snoc)
  finally show "clean_layers (IntSeq k (n # ns)) =
          Inr (link_layers (rev (butlast (generate_layers (n # ns))))
                (last (generate_layers (n # ns))))" .
next
  assume "clean_layers c = Inl e"
  then show "ConstructableNetwork_init E h bn st c = Inl e"
    by (simp add: ConstructableNetwork_init_def)
qed

theorem clean_layers_validates_terminal_layer_witness:
  "clean_layers (ObjSeq PyList [Layer example_dense, Layer example_output]) =
     Inr (LayerConnection (Layer example_dense) (Layer example_output))
   \<and> clean_layers (ObjSeq PyList [Layer example_dense, Layer example_dense]) =
       Inl NetworkConnectionError
   \<and> clean_layers (IntSeq PyTuple [2, 4, 1]) =
       Inr (LayerConnection (Layer (default_layer Plain 2))
             (LayerConnection (Layer (default_layer Plain 4))
               (Layer (default_layer Output 1))))
   \<and> ConstructableNetwork_init example_env example_hook example_base example_store
        (ObjSeq PyList [Layer example_dense, Layer example_dense]) = Inl NetworkConnectionError"
proof -
  note inst = clean_layers_validates_terminal_layer
    [where a = "Layer example_dense" and b = "Layer example_output" and k = PyList
      and l = example_dense and n = 2 and ns = "[4, 1]"
      and c = "ObjSeq PyList [Layer example_dense, Layer example_dense]"
      and e = NetworkConnectionError and E = example_env and h = example_hook
      and bn = example_base and st = example_store]
  have a: "clean_layers (ObjSeq PyList [Layer example_dense, Layer example_output]) =
     Inr (LayerConnection (Layer example_dense) (Layer example_output))"
    using inst [where xs = "[Layer example_output]"]
    by (simp add: example_output_def)
  have b: "clean_layers (ObjSeq PyList [Layer example_dense, Layer example_dense]) =
       Inl NetworkConnectionError"
    using inst [where xs = "[Layer example_dense]"]
    by (simp add: example_dense_def)
  have c: "clean_layers (IntSeq PyTuple [2, 4, 1]) =
       Inr (LayerConnection (Layer (default_layer Plain 2))
             (LayerConnection (Layer (default_layer Plain 4))
               (Layer (default_layer Output 1))))"
    using clean_layers_validates_terminal_layer
      [where a = "Layer example_dense" and b = "Layer example_output" and k = PyTuple
      and l = example_dense and n = 2 and ns = "[4, 1]" and xs = "[Layer example_dense]"
      and c = "ObjSeq PyList [Layer example_dense, Layer example_dense]"
      and e = NetworkConnectionError and E = example_env and h = example_hook
      and bn = example_base and st = example_store]
    by (simp add: generate_layers_def)
  have d: "ConstructableNetwork_init example_env example_hook example_base example_store
        (ObjSeq PyList [Layer example_dense, Layer example_dense]) = Inl NetworkConnectionError"
    using inst [where xs = "[Layer example_dense]"] b
    by simp
  from a b c d show ?thesis by simp
qed



text \<open>
  Claim C6. In every state of a constructed network, \<^verbatim>\<open>predict_raw\<close> and
  \<^verbatim>\<open>prediction_error\<close> return a value and leave the network as it was: the store, and
  with it every parameter, is unchanged. A second call of \<^verbatim>\<open>predict_raw\<close> on the same
  input therefore returns the same value.
\<close>

theorem predict_raw_and_prediction_error_leave_state:
  assumes "ConstructableNetwork_init E h b s0 c = Inr net"
  shows "predict_raw E (net\<lparr>base := bs, store := st\<rparr>) v =
           Some (forward_value E st (filter not_Dropout (train_layers net))
                   (format_data E v (Some (does_layer_accept_1d_feature E (input_layer net)))),
                 net\<lparr>base := bs, store := st\<rparr>)
       \<and> prediction_error E (net\<lparr>base := bs, store := st\<rparr>) v t =
           Some (error_output E (error b) (format_data E t None)
                   (forward_value E st (train_layers net) (format_data E v None)),
                 net\<lparr>base := bs, store := st\<rparr>)
       \<and> (\<forall>r self1. predict_raw E (net\<lparr>base := bs, store := st\<rparr>) v = Some (r, self1)
             \<longrightarrow> predict_raw E self1 v = Some (r, self1))"
proof -
  from constructed_methods [OF assms] obtain x y where ne: "x \<noteq> y"
    and pr: "methods_predict_raw (methods net) =
         \<lparr>fn_inputs = [x],
          fn_outputs = uniform_forward (filter not_Dropout (train_layers net)) (Var x),
          fn_updates = []\<rparr>"
    and pe: "methods_prediction_error (methods net) =
         \<lparr>fn_inputs = [x, y],
          fn_outputs = ErrorFn (error b) (Var y) (uniform_forward (train_layers net) (Var x)),
          fn_updates = []\<rparr>"
    by blast
  have a: "predict_raw E (net\<lparr>base := bs, store := st\<rparr>) v =
           Some (forward_value E st (filter not_Dropout (train_layers net))
                   (format_data E v (Some (does_layer_accept_1d_feature E (input_layer net)))),
                 net\<lparr>base := bs, store := st\<rparr>)"
    by (simp add: predict_raw_def pr call_predict_raw)
  have b: "prediction_error E (net\<lparr>base := bs, store := st\<rparr>) v t =
           Some (error_output E (error b) (format_data E t None)
                   (forward_value E st (train_layers net) (format_data E v None)),
                 net\<lparr>base := bs, store := st\<rparr>)"
    by (simp add: prediction_error_def pe call_prediction_error [OF ne])
  from a b show ?thesis by simp
qed

theorem predict_raw_and_prediction_error_leave_state_witness:
  "predict_raw example_env example_network 3 = Some (8, example_network)
   \<and> prediction_error example_env example_network 3 5 = Some (1, example_network)"
proof -
  have self: "example_network\<lparr>base := example_base,
      store := example_store(StepVar := 1, EpochVar := 0)\<rparr> = example_network"
    by (simp add: example_network_def)
  have tl: "train_layers example_network = [example_dense, example_dropout]"
    "input_layer example_network = example_dense"
    by (simp_all add: example_network_def)
  have nd: "not_Dropout example_dense" "\<not> not_Dropout example_dropout"
    by (simp_all add: not_Dropout_def example_dense_def example_dropout_def)
  have f: "filter not_Dropout [example_dense, example_dropout] = [example_dense]"
    by (simp add: nd)
  have v1: "forward_value example_env s [example_dense] (format_data example_env 3 flag) = 8"
    for s flag
    by (simp add: forward_value_def example_env_def example_dense_def)
  have v2: "error_output example_env (error example_base) (format_data example_env 5 None)
      (forward_value example_env s [example_dense, example_dropout]
         (format_data example_env 3 None)) = 1" for s
    by (simp add: forward_value_def example_env_def example_dense_def example_dropout_def)
  from predict_raw_and_prediction_error_leave_state
    [OF example_network_constructed, where bs = example_base
      and st = "example_store(StepVar := 1, EpochVar := 0)" and v = 3 and t = 5]
  show ?thesis
    unfolding self tl f v1 v2 by simp
qed

text \<open>
  Claim C7. \<^verbatim>\<open>predict\<close> is the output of the last layer of the pipeline applied to the
  result of \<^verbatim>\<open>predict_raw\<close>. The compiled expression of \<^verbatim>\<open>predict_raw\<close> applies
  layers of the pipeline without its last element only.
\<close>

theorem predict_applies_output_layer_at_call_time:
  assumes "ConstructableNetwork_init E h b s0 c = Inr net"
  shows "predict E (net\<lparr>base := bs, store := st\<rparr>) v =
           (case predict_raw E (net\<lparr>base := bs, store := st\<rparr>) v of
              None \<Rightarrow> None
            | Some (raw_prediction, self1) \<Rightarrow>
                Some (layer_output E (last (layers net)) (store self1) raw_prediction, self1))
       \<and> predict E (net\<lparr>base := bs, store := st\<rparr>) v =
           Some (layer_output E (last (layers net)) st
                   (forward_value E st (filter not_Dropout (butlast (layers net)))
                      (format_data E v (Some (does_layer_accept_1d_feature E (input_layer net))))),
                 net\<lparr>base := bs, store := st\<rparr>)
       \<and> applied_layers (fn_outputs (methods_predict_raw (methods net))) =
           filter not_Dropout (butlast (layers net))
       \<and> output_layer net = last (layers net)"
proof -
  from init_Inr [OF assms] obtain conn where
    ls: "layers net = map (initialize E) (butlast (layers_of conn)) @ [last (layers_of conn)]"
    and tl: "train_layers net = map (initialize E) (butlast (layers_of conn))"
    and ol: "output_layer net = last (layers_of conn)"
    by blast
  from ls tl have t: "train_layers net = butlast (layers net)"
    by (simp add: butlast_append)
  from ls ol have o: "output_layer net = last (layers net)" by simp
  from constructed_methods [OF assms] obtain x where
    pr: "methods_predict_raw (methods net) =
         \<lparr>fn_inputs = [x],
          fn_outputs = uniform_forward (filter not_Dropout (train_layers net)) (Var x),
          fn_updates = []\<rparr>"
    by blast
  have raw: "predict_raw E (net\<lparr>base := bs, store := st\<rparr>) v =
           Some (forward_value E st (filter not_Dropout (train_layers net))
                   (format_data E v (Some (does_layer_accept_1d_feature E (input_layer net)))),
                 net\<lparr>base := bs, store := st\<rparr>)"
    by (simp add: predict_raw_def pr call_predict_raw)
  have a: "predict E (net\<lparr>base := bs, store := st\<rparr>) v =
           (case predict_raw E (net\<lparr>base := bs, store := st\<rparr>) v of
              None \<Rightarrow> None
            | Some (raw_prediction, self1) \<Rightarrow>
                Some (layer_output E (last (layers net)) (store self1) raw_prediction, self1))"
    by (simp add: predict_def raw o)
  have b: "predict E (net\<lparr>base := bs, store := st\<rparr>) v =
           Some (layer_output E (last (layers net)) st
                   (forward_value E st (filter not_Dropout (butlast (layers net)))
                      (format_data E v (Some (does_layer_accept_1d_feature E (input_layer net))))),
                 net\<lparr>base := bs, store := st\<rparr>)"
    by (simp add: predict_def raw o t)
  have c: "applied_layers (fn_outputs (methods_predict_raw (methods net))) =
           filter not_Dropout (butlast (layers net))"
    by (simp add: pr applied_layers_uniform_forward t)
  from a b c o show ?thesis by simp
qed

theorem predict_applies_output_layer_at_call_time_witness:
  "predict example_env example_network 3 = Some (9, example_network)
   \<and> applied_layers (fn_outputs (methods_predict_raw (methods example_network))) = [example_dense]
   \<and> output_layer example_network = example_output"
proof -
  have self: "example_network\<lparr>base := example_base,
      store := example_store(StepVar := 1, EpochVar := 0)\<rparr> = example_network"
    by (simp add: example_network_def)
  have ls: "layers example_network = [example_dense, example_dropout, example_output]"
    "input_layer example_network = example_dense"
    by (simp_all add: example_network_def)
  have nd: "not_Dropout example_dense" "\<not> not_Dropout example_dropout"
    by (simp_all add: not_Dropout_def example_dense_def example_dropout_def)
  have f: "filter not_Dropout (butlast [example_dense, example_dropout, example_output])
      = [example_dense]"
    by (simp add: nd)
  have l: "last [example_dense, example_dropout, example_output] = example_output"
    by simp
  have v: "layer_output example_env example_output s
      (forward_value example_env s [example_dense] (format_data example_env 3 flag)) = 9"
    for s flag
    by (simp add: forward_value_def example_env_def example_dense_def example_output_def)
  from predict_applies_output_layer_at_call_time
    [OF example_network_constructed, where bs = example_base
      and st = "example_store(StepVar := 1, EpochVar := 0)" and v = 3]
  show ?thesis
    unfolding self ls f l v by blast
qed

text \<open>
  Claim C8, as stated, fails: \<^verbatim>\<open>on_epoch_start_update\<close> does not write the step. In a
  network whose attribute \<^verbatim>\<open>step\<close> has become 2 while the cell of the graph holds 1,
  the cell still differs from the attribute after the call.
\<close>

theorem on_epoch_start_update_leaves_step_cell:
  "store (on_epoch_start_update example_env
            (example_network\<lparr>base := example_base\<lparr>step := 2\<rparr>\<rparr>) 7) StepVar
   \<noteq> asfloat example_env
       (step (base (on_epoch_start_update example_env
                      (example_network\<lparr>base := example_base\<lparr>step := 2\<rparr>\<rparr>) 7)))"
  by (simp add: on_epoch_start_update_def example_env_def example_network_def example_base_def
      example_store_def)

text \<open>
  Claim C8, as amended. \<^verbatim>\<open>on_epoch_start_update\<close> calls the base class's method and then
  writes the epoch into the epoch cell of the graph. It writes nothing else: every other
  cell, the attributes, the expressions, the compiled procedures and the layers are as the
  base class's method left them. Where that method leaves the store alone, the step cell
  and every parameter keep the values they had before the call.
\<close>

theorem on_epoch_start_update_writes_epoch_cell_only:
  "store (on_epoch_start_update E self epoch) =
     (store (base_on_epoch_start_update E epoch self))(EpochVar := epoch)
   \<and> store (on_epoch_start_update E self epoch) EpochVar = epoch
   \<and> (cell \<noteq> EpochVar \<longrightarrow>
        store (on_epoch_start_update E self epoch) cell =
          store (base_on_epoch_start_update E epoch self) cell)
   \<and> base (on_epoch_start_update E self epoch) = base (base_on_epoch_start_update E epoch self)
   \<and> variables (on_epoch_start_update E self epoch) =
       variables (base_on_epoch_start_update E epoch self)
   \<and> methods (on_epoch_start_update E self epoch) =
       methods (base_on_epoch_start_update E epoch self)
   \<and> layers (on_epoch_start_update E self epoch) =
       layers (base_on_epoch_start_update E epoch self)
   \<and> (store (base_on_epoch_start_update E epoch self) = store self \<longrightarrow>
        store (on_epoch_start_update E self epoch) StepVar = store self StepVar
        \<and> store (on_epoch_start_update E self epoch) (Param p) = store self (Param p))"
  by (simp add: on_epoch_start_update_def Let_def)

theorem on_epoch_start_update_writes_epoch_cell_only_witness:
  "store (on_epoch_start_update example_env example_network 7) EpochVar = 7
   \<and> store (on_epoch_start_update example_env example_network 7) StepVar = 1
   \<and> store (on_epoch_start_update example_env example_network 7) (Param ''weight'') = 0"
proof -
  have same: "store (base_on_epoch_start_update example_env 7 example_network)
      = store example_network"
    by (simp add: example_env_def)
  have vals: "store example_network StepVar = 1" "store example_network (Param ''weight'') = 0"
    by (simp_all add: example_network_def example_store_def)
  from on_epoch_start_update_writes_epoch_cell_only
    [where E = example_env and self = example_network and epoch = 7 and cell = StepVar
      and p = "''weight''"] same vals
  show ?thesis by simp
qed

text \<open>
  Claim C9. A sequence of a single layer is not rejected with the error of the
  terminal-layer check. \<^verbatim>\<open>clean_layers\<close> pops the only element, links nothing, and reads
  \<^verbatim>\<open>output_layer\<close> from the bare layer: \<^verbatim>\<open>AttributeError\<close>, also when the layer is
  an \<^verbatim>\<open>Output\<close>.
\<close>

theorem single_layer_sequence_raises_AttributeError:
  "clean_layers (ObjSeq PyList [Layer example_dense]) = Inl AttributeError
   \<and> clean_layers (ObjSeq PyList [Layer example_output]) = Inl AttributeError
   \<and> ConstructableNetwork_init example_env example_hook example_base example_store
        (ObjSeq PyList [Layer example_dense]) = Inl AttributeError"
  by (simp add: clean_layers_single ConstructableNetwork_init_def)

text \<open>
  Claim C10. \<^verbatim>\<open>train_epoch\<close> hands its two arguments to the compiled procedure as
  they are, so its result does not depend on \<^verbatim>\<open>format_data\<close>;
  \<^verbatim>\<open>prediction_error\<close>, \<^verbatim>\<open>predict_raw\<close> and \<^verbatim>\<open>train\<close> format each argument
  first.
\<close>

theorem train_epoch_does_not_format_its_arguments:
  "train_epoch (E\<lparr>format_data := g\<rparr>) self a t = train_epoch E self a t
   \<and> train_epoch E self a t =
       map_option (\<lambda>(out, s). (out, self\<lparr>store := s\<rparr>))
         (call_function E (methods_train_epoch (methods self)) [a, t] (store self))
   \<and> prediction_error E self a t =
       map_option (\<lambda>(out, s). (out, self\<lparr>store := s\<rparr>))
         (call_function E (methods_prediction_error (methods self))
            [format_data E a None, format_data E t None] (store self))
   \<and> predict_raw E self a =
       map_option (\<lambda>(out, s). (out, self\<lparr>store := s\<rparr>))
         (call_function E (methods_predict_raw (methods self))
            [format_data E a (Some (does_layer_accept_1d_feature E (input_layer self)))]
            (store self))
   \<and> train E self a t ta tt =
       base_train E
         (format_data E a (Some (does_layer_accept_1d_feature E (input_layer self))))
         (format_data E t (Some (does_layer_accept_1d_feature E (output_layer self))))
         (map_option
            (\<lambda>d. format_data E d (Some (does_layer_accept_1d_feature E (input_layer self)))) ta)
         (map_option
            (\<lambda>d. format_data E d (Some (does_layer_accept_1d_feature E (output_layer self)))) tt)
         self"
  by (simp add: train_epoch_def prediction_error_def predict_raw_def train_def Let_def
      call_function_format_data_irrelevant split: option.splits)

end
